theory Spec2Isabelle
  imports Complex_Main "HOL-Library.Word"
begin

section \<open>Scalars, vectors and matrices\<close>

text \<open>
  The program computes on \<^verbatim>\<open>float\<close> / \<^verbatim>\<open>GLfloat\<close> through the Eigen library. The
  embedding has two readings of such a scalar. Where the program only stores, copies or
  hands back coefficients (the model and its setters, the matrices that
  \<^verbatim>\<open>Random()\<close> draws), a coefficient is the real number it denotes, and \<open>GLfloat\<close> is \<open>real\<close>.
  Where a claim is about a value that the program computes (the dot and cross products,
  the projection matrix), the arithmetic is that of IEEE 754 single precision, given in
  the section on single-precision arithmetic below. Handles of the graphics library
  (\<^verbatim>\<open>GLuint\<close>) are 32-bit words.
\<close>

type_synonym GLfloat = real
type_synonym GLuint = "32 word"
type_synonym GLint = "32 word"

datatype Vector3f = Vector3f (vx: GLfloat) (vy: GLfloat) (vz: GLfloat)

datatype Vector4f = Vector4f (wx: GLfloat) (wy: GLfloat) (wz: GLfloat) (ww: GLfloat)

text \<open>A fixed-size matrix is given by its rows, the order in which Eigen's comma
  initialiser fills it.\<close>

datatype Matrix3f = Matrix3f (r0: Vector3f) (r1: Vector3f) (r2: Vector3f)

datatype Matrix4f = Matrix4f (row0: Vector4f) (row1: Vector4f) (row2: Vector4f) (row3: Vector4f)

text \<open>A dynamically sized matrix (\<^verbatim>\<open>Eigen::MatrixXf\<close>) is a list of rows.\<close>

type_synonym MatrixXf = "GLfloat list list"

subsection \<open>The operations of Eigen that the program uses\<close>

definition UnitX :: Vector3f where
  "UnitX = Vector3f 1 0 0"

definition UnitY :: Vector3f where
  "UnitY = Vector3f 0 1 0"

definition UnitZ :: Vector3f where
  "UnitZ = Vector3f 0 0 1"

definition Zero3f :: Vector3f where
  "Zero3f = Vector3f 0 0 0"

definition Identity4f :: Matrix4f where
  "Identity4f = Matrix4f (Vector4f 1 0 0 0) (Vector4f 0 1 0 0) (Vector4f 0 0 1 0) (Vector4f 0 0 0 1)"

definition plus3 :: "Vector3f \<Rightarrow> Vector3f \<Rightarrow> Vector3f" where
  "plus3 a b = Vector3f (vx a + vx b) (vy a + vy b) (vz a + vz b)"

definition plus4 :: "Vector4f \<Rightarrow> Vector4f \<Rightarrow> Vector4f" where
  "plus4 a b = Vector4f (wx a + wx b) (wy a + wy b) (wz a + wz b) (ww a + ww b)"

definition dot3 :: "Vector3f \<Rightarrow> Vector3f \<Rightarrow> GLfloat" where
  "dot3 a b = vx a * vx b + vy a * vy b + vz a * vz b"

definition dot4 :: "Vector4f \<Rightarrow> Vector4f \<Rightarrow> GLfloat" where
  "dot4 a b = wx a * wx b + wy a * wy b + wz a * wz b + ww a * ww b"


text \<open>\<^verbatim>\<open>v.homogeneous()\<close> appends the coordinate 1; \<^verbatim>\<open>w.head(3)\<close> drops the last one.\<close>

definition homogeneous :: "Vector3f \<Rightarrow> Vector4f" where
  "homogeneous v = Vector4f (vx v) (vy v) (vz v) 1"

definition head3 :: "Vector4f \<Rightarrow> Vector3f" where
  "head3 w = Vector3f (wx w) (wy w) (wz w)"

definition col :: "Matrix4f \<Rightarrow> nat \<Rightarrow> Vector4f" where
  "col m j =
     (let pick = (\<lambda>r. if j = 0 then wx r else if j = 1 then wy r else if j = 2 then wz r else ww r)
      in Vector4f (pick (row0 m)) (pick (row1 m)) (pick (row2 m)) (pick (row3 m)))"

definition mat4_times_vec :: "Matrix4f \<Rightarrow> Vector4f \<Rightarrow> Vector4f" where
  "mat4_times_vec m v = Vector4f (dot4 (row0 m) v) (dot4 (row1 m) v) (dot4 (row2 m) v) (dot4 (row3 m) v)"

definition row_times_mat4 :: "Vector4f \<Rightarrow> Matrix4f \<Rightarrow> Vector4f" where
  "row_times_mat4 r m = Vector4f (dot4 r (col m 0)) (dot4 r (col m 1)) (dot4 r (col m 2)) (dot4 r (col m 3))"

definition mat4_times_mat4 :: "Matrix4f \<Rightarrow> Matrix4f \<Rightarrow> Matrix4f" where
  "mat4_times_mat4 a b =
     Matrix4f (row_times_mat4 (row0 a) b) (row_times_mat4 (row1 a) b)
              (row_times_mat4 (row2 a) b) (row_times_mat4 (row3 a) b)"

definition mat3_times_vec :: "Matrix3f \<Rightarrow> Vector3f \<Rightarrow> Vector3f" where
  "mat3_times_vec m v = Vector3f (dot3 (r0 m) v) (dot3 (r1 m) v) (dot3 (r2 m) v)"


text \<open>
  \<^verbatim>\<open>Eigen::Matrix4f::Random()\<close> fills a matrix with pseudo-random coefficients between
  -1 and 1, drawn from the generator of the C library. The generator is outside the
  repository; a function that calls \<^verbatim>\<open>Random()\<close> takes the matrix drawn as its first
  argument, and \<open>Random_range\<close> says that a matrix is a possible draw.
\<close>

definition coeff_in_range :: "GLfloat \<Rightarrow> bool" where
  "coeff_in_range c = (- 1 \<le> c \<and> c \<le> 1)"

definition row_in_range :: "Vector4f \<Rightarrow> bool" where
  "row_in_range r =
     (coeff_in_range (wx r) \<and> coeff_in_range (wy r) \<and> coeff_in_range (wz r) \<and> coeff_in_range (ww r))"

definition Random_range :: "Matrix4f \<Rightarrow> bool" where
  "Random_range m =
     (row_in_range (row0 m) \<and> row_in_range (row1 m) \<and> row_in_range (row2 m) \<and> row_in_range (row3 m))"

section \<open>Single-precision arithmetic\<close>















subsection \<open>Vectors and matrices of floats, and the operations of Eigen on them\<close>














section \<open>Linear-algebra primitives (assignment.cc)\<close>

definition Add3dPoints :: "Vector3f \<Rightarrow> Vector3f \<Rightarrow> Vector3f" where
  "Add3dPoints x y = plus3 x y"

definition Add4dPoints :: "Vector4f \<Rightarrow> Vector4f \<Rightarrow> Vector4f" where
  "Add4dPoints x y = plus4 x y"

definition Multiply4x4Matrices :: "Matrix4f \<Rightarrow> Matrix4f \<Rightarrow> Matrix4f" where
  "Multiply4x4Matrices x y = mat4_times_mat4 x y"

definition MultiplyVectorAndMatrix :: "Matrix4f \<Rightarrow> Vector4f \<Rightarrow> Vector4f" where
  "MultiplyVectorAndMatrix x y = mat4_times_vec x y"



section \<open>Transformations (transformations.cc)\<close>

text \<open>Each of the three builders returns \<^verbatim>\<open>Eigen::Matrix4f::Random()\<close> and never reads
  its arguments.\<close>

definition ComputeTranslationMatrix :: "Matrix4f \<Rightarrow> Vector3f \<Rightarrow> Matrix4f" where
  "ComputeTranslationMatrix rnd offset = rnd"

definition ComputeRotationMatrix :: "Matrix4f \<Rightarrow> Vector3f \<Rightarrow> GLfloat \<Rightarrow> Matrix4f" where
  "ComputeRotationMatrix rnd rotation_axis angle_in_radians = rnd"

definition ComputeScalingMatrix :: "Matrix4f \<Rightarrow> GLfloat \<Rightarrow> Matrix4f" where
  "ComputeScalingMatrix rnd scale = rnd"

section \<open>The camera projection (camera_utils.cc)\<close>





section \<open>The model (model.h, model.cc)\<close>

text \<open>The members of the class keep their names; the underscore that ends each of them
  in the source is followed by a prime here, since a name may not end in an underscore.\<close>

record Model =
  orientation_' :: Vector3f
  position_' :: Vector3f
  vertices_' :: MatrixXf
  indices_' :: "GLuint list"
  vertex_buffer_object_id_' :: GLuint
  vertex_array_object_id_' :: GLuint
  element_buffer_object_id_' :: GLuint

text \<open>The two constructors; the first leaves the index vector empty.\<close>

definition Model_of_vertices :: "Vector3f \<Rightarrow> Vector3f \<Rightarrow> MatrixXf \<Rightarrow> Model" where
  "Model_of_vertices orientation position vertices =
     \<lparr> orientation_' = orientation, position_' = position, vertices_' = vertices,
       indices_' = [], vertex_buffer_object_id_' = 0, vertex_array_object_id_' = 0,
       element_buffer_object_id_' = 0 \<rparr>"

definition Model_of_indices :: "Vector3f \<Rightarrow> Vector3f \<Rightarrow> MatrixXf \<Rightarrow> GLuint list \<Rightarrow> Model" where
  "Model_of_indices orientation position vertices indices =
     \<lparr> orientation_' = orientation, position_' = position, vertices_' = vertices,
       indices_' = indices, vertex_buffer_object_id_' = 0, vertex_array_object_id_' = 0,
       element_buffer_object_id_' = 0 \<rparr>"

text \<open>\<^verbatim>\<open>Model::ComputeModelMatrix\<close> returns \<^verbatim>\<open>Eigen::Matrix4f::Random()\<close>: it reads neither
  the orientation nor the position.\<close>

definition ComputeModelMatrix :: "Matrix4f \<Rightarrow> Model \<Rightarrow> Matrix4f" where
  "ComputeModelMatrix rnd m = rnd"

definition set_orientation :: "Vector3f \<Rightarrow> Model \<Rightarrow> Model" where
  "set_orientation orientation m = m\<lparr>orientation_' := orientation\<rparr>"

definition set_position :: "Vector3f \<Rightarrow> Model \<Rightarrow> Model" where
  "set_position position m = m\<lparr>position_' := position\<rparr>"

section \<open>The graphics library seen from the shader program\<close>

text \<open>
  OpenGL is outside the repository. Its state is modelled by the trace of the calls made
  so far, in order; a call that returns a value records it. What the library answers
  (the names it hands out, the compile and link status, the info logs) is a parameter,
  the driver: any function of the calls made so far.
\<close>

datatype ShaderType = VERTEX | FRAGMENT

datatype gl_call =
    GL_CreateShader ShaderType GLuint
  | GL_ShaderSource GLuint string
  | GL_CompileShader GLuint
  | GL_GetShaderiv GLuint GLint
  | GL_GetShaderInfoLog GLuint string
  | GL_CreateProgram GLuint
  | GL_AttachShader GLuint GLuint
  | GL_LinkProgram GLuint
  | GL_GetProgramiv GLuint GLint
  | GL_GetProgramInfoLog GLuint string
  | GL_DeleteShader GLuint
  | GL_DeleteProgram GLuint
  | GL_UseProgram GLuint

type_synonym gl_trace = "gl_call list"

record gl_driver =
  shader_name :: "gl_trace \<Rightarrow> ShaderType \<Rightarrow> GLuint"
  compile_status :: "gl_trace \<Rightarrow> GLuint \<Rightarrow> GLint"
  shader_info_log :: "gl_trace \<Rightarrow> GLuint \<Rightarrow> string"
  program_name :: "gl_trace \<Rightarrow> GLuint"
  link_status :: "gl_trace \<Rightarrow> GLuint \<Rightarrow> GLint"
  program_info_log :: "gl_trace \<Rightarrow> GLuint \<Rightarrow> string"


definition glCreateShader :: "gl_driver \<Rightarrow> ShaderType \<Rightarrow> gl_trace \<Rightarrow> GLuint \<times> gl_trace" where
  "glCreateShader drv ty gl = (let h = shader_name drv gl ty in (h, gl @ [GL_CreateShader ty h]))"

definition glShaderSource :: "GLuint \<Rightarrow> string \<Rightarrow> gl_trace \<Rightarrow> gl_trace" where
  "glShaderSource h src gl = gl @ [GL_ShaderSource h src]"

definition glCompileShader :: "GLuint \<Rightarrow> gl_trace \<Rightarrow> gl_trace" where
  "glCompileShader h gl = gl @ [GL_CompileShader h]"

text \<open>The value returned is the one found in \<^verbatim>\<open>success\<close> after the query, which the
  caller set to 0 before it.\<close>

definition glGetShaderiv :: "gl_driver \<Rightarrow> GLuint \<Rightarrow> gl_trace \<Rightarrow> GLint \<times> gl_trace" where
  "glGetShaderiv drv h gl = (let st = compile_status drv gl h in (st, gl @ [GL_GetShaderiv h st]))"

definition glCreateProgram :: "gl_driver \<Rightarrow> gl_trace \<Rightarrow> GLuint \<times> gl_trace" where
  "glCreateProgram drv gl = (let p = program_name drv gl in (p, gl @ [GL_CreateProgram p]))"

definition glAttachShader :: "GLuint \<Rightarrow> GLuint \<Rightarrow> gl_trace \<Rightarrow> gl_trace" where
  "glAttachShader p h gl = gl @ [GL_AttachShader p h]"

definition glLinkProgram :: "GLuint \<Rightarrow> gl_trace \<Rightarrow> gl_trace" where
  "glLinkProgram p gl = gl @ [GL_LinkProgram p]"

definition glGetProgramiv :: "gl_driver \<Rightarrow> GLuint \<Rightarrow> gl_trace \<Rightarrow> GLint \<times> gl_trace" where
  "glGetProgramiv drv p gl = (let st = link_status drv gl p in (st, gl @ [GL_GetProgramiv p st]))"

definition glDeleteShader :: "GLuint \<Rightarrow> gl_trace \<Rightarrow> gl_trace" where
  "glDeleteShader h gl = gl @ [GL_DeleteShader h]"

definition glDeleteProgram :: "GLuint \<Rightarrow> gl_trace \<Rightarrow> gl_trace" where
  "glDeleteProgram p gl = gl @ [GL_DeleteProgram p]"

definition glUseProgram :: "GLuint \<Rightarrow> gl_trace \<Rightarrow> gl_trace" where
  "glUseProgram p gl = gl @ [GL_UseProgram p]"

text \<open>
  \<^verbatim>\<open>info_log->resize(n)\<close> cuts the string to \<open>n\<close> characters or pads it with NUL;
  the info-log queries then write at most \<open>maxLength\<close> characters, the closing NUL
  included, at the front of the buffer.
\<close>

definition NUL :: char where
  "NUL = CHR 0x00"

definition resize :: "nat \<Rightarrow> string \<Rightarrow> string" where
  "resize n l = take n l @ replicate (n - length l) NUL"

definition write_info_log :: "nat \<Rightarrow> string \<Rightarrow> string \<Rightarrow> string" where
  "write_info_log maxLength msg buf =
     (if maxLength = 0 then buf
      else (let written = take (maxLength - 1) msg @ [NUL]
            in written @ drop (length written) buf))"

definition glGetShaderInfoLog ::
    "gl_driver \<Rightarrow> GLuint \<Rightarrow> nat \<Rightarrow> string \<Rightarrow> gl_trace \<Rightarrow> string \<times> gl_trace" where
  "glGetShaderInfoLog drv h maxLength buf gl =
     (let msg = shader_info_log drv gl h
      in (write_info_log maxLength msg buf, gl @ [GL_GetShaderInfoLog h msg]))"

definition glGetProgramInfoLog ::
    "gl_driver \<Rightarrow> GLuint \<Rightarrow> nat \<Rightarrow> string \<Rightarrow> gl_trace \<Rightarrow> string \<times> gl_trace" where
  "glGetProgramInfoLog drv p maxLength buf gl =
     (let msg = program_info_log drv gl p
      in (write_info_log maxLength msg buf, gl @ [GL_GetProgramInfoLog p msg]))"

section \<open>The shader program (shader_program.h, shader_program.cc)\<close>

text \<open>
  A parameter of type \<^verbatim>\<open>std::string*\<close> is a \<open>string option\<close>: \<open>None\<close> is the null
  pointer, \<open>Some l\<close> points to a string that holds \<open>l\<close>. A function that writes through
  the pointer returns the option with the new content.
\<close>

definition kNumCharsInfoLog :: nat where
  "kNumCharsInfoLog = 512"

definition CompileShader ::
    "gl_driver \<Rightarrow> string \<Rightarrow> ShaderType \<Rightarrow> string option \<Rightarrow> gl_trace
      \<Rightarrow> GLuint \<times> string option \<times> gl_trace" where
  "CompileShader drv shader_src shader_type info_log gl =
     (case (case shader_type of
              VERTEX \<Rightarrow> glCreateShader drv VERTEX gl
            | FRAGMENT \<Rightarrow> glCreateShader drv FRAGMENT gl) of
        (shader_id, gl1) \<Rightarrow>
          (let gl2 = glShaderSource shader_id shader_src gl1;
               gl3 = glCompileShader shader_id gl2
           in case glGetShaderiv drv shader_id gl3 of
                (success, gl4) \<Rightarrow>
                  if success = 0 then
                    (case info_log of
                       None \<Rightarrow> (0, None, gl4)
                     | Some l \<Rightarrow>
                         (case glGetShaderInfoLog drv shader_id kNumCharsInfoLog
                                 (resize kNumCharsInfoLog l) gl4 of
                            (l', gl5) \<Rightarrow> (0, Some l', gl5)))
                  else (shader_id, info_log, gl4)))"

definition CreateShaderProgram ::
    "gl_driver \<Rightarrow> GLuint \<Rightarrow> GLuint \<Rightarrow> string option \<Rightarrow> gl_trace
      \<Rightarrow> GLuint \<times> string option \<times> gl_trace" where
  "CreateShaderProgram drv vertex_shader fragment_shader info_log gl =
     (case glCreateProgram drv gl of
        (shader_program, gl1) \<Rightarrow>
          (let gl2 = glAttachShader shader_program vertex_shader gl1;
               gl3 = glAttachShader shader_program fragment_shader gl2;
               gl4 = glLinkProgram shader_program gl3
           in case glGetProgramiv drv shader_program gl4 of
                (success, gl5) \<Rightarrow>
                  if success = 0 then
                    (case info_log of
                       None \<Rightarrow> (0, None, gl5)
                     | Some l \<Rightarrow>
                         (case glGetProgramInfoLog drv shader_program kNumCharsInfoLog
                                 (resize kNumCharsInfoLog l) gl5 of
                            (l', gl6) \<Rightarrow> (0, Some l', gl6)))
                  else (shader_program, info_log, gl5)))"

definition ReleaseShaderResources :: "GLuint \<Rightarrow> GLuint \<Rightarrow> gl_trace \<Rightarrow> gl_trace" where
  "ReleaseShaderResources vertex_shader fragment_shader gl =
     glDeleteShader fragment_shader (glDeleteShader vertex_shader gl)"

text \<open>The file system is a parameter: the content of each path that can be opened.\<close>

type_synonym file_system = "string \<Rightarrow> string option"

definition LoadShaderFromFile :: "file_system \<Rightarrow> string \<Rightarrow> string option \<Rightarrow> bool \<times> string option" where
  "LoadShaderFromFile fs filepath loaded_file =
     (case fs filepath of
        None \<Rightarrow> (False, loaded_file)
      | Some content \<Rightarrow>
          (case loaded_file of
             None \<Rightarrow> (False, None)
           | Some _ \<Rightarrow> (True, Some content)))"

record ShaderProgram =
  vertex_shader_src_' :: string
  fragment_shader_src_' :: string
  vertex_shader_' :: GLuint
  fragment_shader_' :: GLuint
  shader_program_id_' :: GLuint
  created_' :: bool

definition ShaderProgram_constructor :: ShaderProgram where
  "ShaderProgram_constructor =
     \<lparr> vertex_shader_src_' = [], fragment_shader_src_' = [], vertex_shader_' = 0,
       fragment_shader_' = 0, shader_program_id_' = 0, created_' = False \<rparr>"

definition ShaderProgram_destructor :: "ShaderProgram \<Rightarrow> gl_trace \<Rightarrow> gl_trace" where
  "ShaderProgram_destructor s gl =
     (if created_' s then glDeleteProgram (shader_program_id_' s) gl else gl)"


text \<open>A member passed by address comes back as \<open>Some\<close> of its new content; \<open>pointee\<close>
  reads it, and keeps the old content for a null pointer.\<close>

definition pointee :: "string \<Rightarrow> string option \<Rightarrow> string" where
  "pointee old p = (case p of None \<Rightarrow> old | Some l \<Rightarrow> l)"

definition LoadVertexShaderFromString :: "string \<Rightarrow> ShaderProgram \<Rightarrow> bool \<times> ShaderProgram" where
  "LoadVertexShaderFromString vertex_shader_source s =
     (True, s\<lparr>vertex_shader_src_' := vertex_shader_source\<rparr>)"

definition LoadFragmentShaderFromString :: "string \<Rightarrow> ShaderProgram \<Rightarrow> bool \<times> ShaderProgram" where
  "LoadFragmentShaderFromString fragment_shader_source s =
     (True, s\<lparr>fragment_shader_src_' := fragment_shader_source\<rparr>)"

definition LoadVertexShaderFromFile ::
    "file_system \<Rightarrow> string \<Rightarrow> ShaderProgram \<Rightarrow> bool \<times> ShaderProgram" where
  "LoadVertexShaderFromFile fs vertex_shader_path s =
     (case LoadShaderFromFile fs vertex_shader_path (Some (vertex_shader_src_' s)) of
        (ok, p) \<Rightarrow> (ok, s\<lparr>vertex_shader_src_' := pointee (vertex_shader_src_' s) p\<rparr>))"

definition LoadFragmentShaderFromFile ::
    "file_system \<Rightarrow> string \<Rightarrow> ShaderProgram \<Rightarrow> bool \<times> ShaderProgram" where
  "LoadFragmentShaderFromFile fs fragment_shader_path s =
     (case LoadShaderFromFile fs fragment_shader_path (Some (fragment_shader_src_' s)) of
        (ok, p) \<Rightarrow> (ok, s\<lparr>fragment_shader_src_' := pointee (fragment_shader_src_' s) p\<rparr>))"

definition BuildVertexShader ::
    "gl_driver \<Rightarrow> string option \<Rightarrow> ShaderProgram \<Rightarrow> gl_trace
      \<Rightarrow> bool \<times> string option \<times> ShaderProgram \<times> gl_trace" where
  "BuildVertexShader drv info_log s gl =
     (case CompileShader drv (vertex_shader_src_' s) VERTEX info_log gl of
        (h, l, gl') \<Rightarrow>
          (let s' = s\<lparr>vertex_shader_' := h\<rparr>
           in (vertex_shader_' s' \<noteq> 0, l, s', gl')))"

definition BuildFragmentShader ::
    "gl_driver \<Rightarrow> string option \<Rightarrow> ShaderProgram \<Rightarrow> gl_trace
      \<Rightarrow> bool \<times> string option \<times> ShaderProgram \<times> gl_trace" where
  "BuildFragmentShader drv info_log s gl =
     (case CompileShader drv (fragment_shader_src_' s) FRAGMENT info_log gl of
        (h, l, gl') \<Rightarrow>
          (let s' = s\<lparr>fragment_shader_' := h\<rparr>
           in (fragment_shader_' s' \<noteq> 0, l, s', gl')))"

definition LinkProgram ::
    "gl_driver \<Rightarrow> string option \<Rightarrow> ShaderProgram \<Rightarrow> gl_trace
      \<Rightarrow> bool \<times> string option \<times> ShaderProgram \<times> gl_trace" where
  "LinkProgram drv info_log s gl =
     (case CreateShaderProgram drv (vertex_shader_' s) (fragment_shader_' s) info_log gl of
        (p, l, gl1) \<Rightarrow>
          (let s' = s\<lparr>shader_program_id_' := p\<rparr>;
               gl2 = ReleaseShaderResources (vertex_shader_' s') (fragment_shader_' s') gl1
           in (shader_program_id_' s' \<noteq> 0, l, s', gl2)))"

text \<open>\<^verbatim>\<open>if (error_info_log) *error_info_log = info_log;\<close>\<close>

definition report :: "string option \<Rightarrow> string \<Rightarrow> string option" where
  "report error_info_log info_log =
     (case error_info_log of None \<Rightarrow> None | Some _ \<Rightarrow> Some info_log)"

text \<open>\<open>Create\<close> returns its result, the caller's string after the call, the object and
  the trace. The local \<^verbatim>\<open>info_log\<close> starts empty and is passed by address to each stage.\<close>

definition Create ::
    "gl_driver \<Rightarrow> string option \<Rightarrow> ShaderProgram \<Rightarrow> gl_trace
      \<Rightarrow> bool \<times> string option \<times> ShaderProgram \<times> gl_trace" where
  "Create drv error_info_log s gl =
     (if created_' s then (True, error_info_log, s, gl)
      else
        (case BuildVertexShader drv (Some []) s gl of
           (ok1, p1, s1, gl1) \<Rightarrow>
             (let info_log1 = pointee [] p1 in
              if \<not> ok1 then (False, report error_info_log info_log1, s1, gl1)
              else
                (case BuildFragmentShader drv (Some info_log1) s1 gl1 of
                   (ok2, p2, s2, gl2) \<Rightarrow>
                     (let info_log2 = pointee info_log1 p2 in
                      if \<not> ok2 then (False, report error_info_log info_log2, s2, gl2)
                      else
                        (case LinkProgram drv (Some info_log2) s2 gl2 of
                           (ok3, p3, s3, gl3) \<Rightarrow>
                             (let info_log3 = pointee info_log2 p3 in
                              if \<not> ok3 then (False, report error_info_log info_log3, s3, gl3)
                              else (True, error_info_log, s3\<lparr>created_' := True\<rparr>, gl3))))))))"

definition Use :: "ShaderProgram \<Rightarrow> gl_trace \<Rightarrow> bool \<times> gl_trace" where
  "Use s gl =
     (if created_' s then (True, glUseProgram (shader_program_id_' s) gl) else (False, gl))"

subsection \<open>Sequences of calls on one object\<close>

datatype call =
    Call_LoadVertexShaderFromString string
  | Call_LoadFragmentShaderFromString string
  | Call_LoadVertexShaderFromFile string
  | Call_LoadFragmentShaderFromFile string
  | Call_Create "string option"
  | Call_Use

fun is_Create :: "call \<Rightarrow> bool" where
  "is_Create (Call_Create e) = True"
| "is_Create c = False"

text \<open>\<open>invoke\<close> runs one public member function on the object and the trace and gives
  the boolean it returns.\<close>

fun invoke ::
    "gl_driver \<Rightarrow> file_system \<Rightarrow> call \<Rightarrow> ShaderProgram \<times> gl_trace
      \<Rightarrow> bool \<times> ShaderProgram \<times> gl_trace" where
  "invoke drv fs (Call_LoadVertexShaderFromString src) (s, gl) =
     (case LoadVertexShaderFromString src s of (r, s') \<Rightarrow> (r, s', gl))"
| "invoke drv fs (Call_LoadFragmentShaderFromString src) (s, gl) =
     (case LoadFragmentShaderFromString src s of (r, s') \<Rightarrow> (r, s', gl))"
| "invoke drv fs (Call_LoadVertexShaderFromFile path) (s, gl) =
     (case LoadVertexShaderFromFile fs path s of (r, s') \<Rightarrow> (r, s', gl))"
| "invoke drv fs (Call_LoadFragmentShaderFromFile path) (s, gl) =
     (case LoadFragmentShaderFromFile fs path s of (r, s') \<Rightarrow> (r, s', gl))"
| "invoke drv fs (Call_Create e) (s, gl) =
     (case Create drv e s gl of (r, e', s', gl') \<Rightarrow> (r, s', gl'))"
| "invoke drv fs Call_Use (s, gl) =
     (case Use s gl of (r, gl') \<Rightarrow> (r, s, gl'))"

text \<open>\<open>run\<close> makes the calls in order and keeps each call with its result.\<close>

fun run ::
    "gl_driver \<Rightarrow> file_system \<Rightarrow> call list \<Rightarrow> ShaderProgram \<times> gl_trace
      \<Rightarrow> (call \<times> bool) list \<times> ShaderProgram \<times> gl_trace" where
  "run drv fs [] w = ([], w)"
| "run drv fs (c # cs) w =
     (case invoke drv fs c w of
        (r, w') \<Rightarrow> (case run drv fs cs w' of (h, w'') \<Rightarrow> ((c, r) # h, w'')))"

definition Create_succeeded :: "(call \<times> bool) list \<Rightarrow> bool" where
  "Create_succeeded h = list_ex (\<lambda>(c, r). is_Create c \<and> r) h"

subsection \<open>Reading a trace\<close>

text \<open>The shader names a trace hands out (0 is no shader), the names passed to
  \<^verbatim>\<open>glDeleteShader\<close>, and the shaders created in the trace that it never deletes.\<close>

fun created_shaders :: "gl_trace \<Rightarrow> GLuint list" where
  "created_shaders [] = []"
| "created_shaders (GL_CreateShader ty h # gl) =
     (if h = 0 then created_shaders gl else h # created_shaders gl)"
| "created_shaders (c # gl) = created_shaders gl"

fun deleted_shaders :: "gl_trace \<Rightarrow> GLuint list" where
  "deleted_shaders [] = []"
| "deleted_shaders (GL_DeleteShader h # gl) = h # deleted_shaders gl"
| "deleted_shaders (c # gl) = deleted_shaders gl"

definition leaked_shaders :: "gl_trace \<Rightarrow> GLuint list" where
  "leaked_shaders gl = filter (\<lambda>h. h \<notin> set (deleted_shaders gl)) (created_shaders gl)"

text \<open>The buffer \<^verbatim>\<open>CompileShader\<close> and \<^verbatim>\<open>CreateShaderProgram\<close> hand back when the empty
  local string of \<open>Create\<close> is resized and the message \<open>msg\<close> written into it.\<close>

definition info_buffer :: "string \<Rightarrow> string" where
  "info_buffer msg = write_info_log kNumCharsInfoLog msg (resize kNumCharsInfoLog [])"

text \<open>The invariant that ties the flag to the program id.\<close>

definition consistent :: "ShaderProgram \<Rightarrow> bool" where
  "consistent s = (created_' s = (shader_program_id_' s \<noteq> 0))"

section \<open>What the specification asks of the transformations\<close>

text \<open>The translation matrix as the specification words it: the identity, with the offset
  in the first three rows of the last column. It is compared with the code below.\<close>

definition identity_with_offset :: "Vector3f \<Rightarrow> Matrix4f" where
  "identity_with_offset offset =
     Matrix4f (Vector4f 1 0 0 (vx offset)) (Vector4f 0 1 0 (vy offset))
              (Vector4f 0 0 1 (vz offset)) (Vector4f 0 0 0 1)"

section \<open>Concrete inputs\<close>

text \<open>
  A small driver to run the shader program on: the name it hands out is the number of
  calls made so far plus one, a shader compiles unless its latest source is in
  \<open>rejected\<close>, and a program links unless the source of a shader attached to it is in
  \<open>unlinkable\<close>. It answers 0 for the name 0.
\<close>

fun sources :: "gl_trace \<Rightarrow> GLuint \<Rightarrow> string list" where
  "sources [] h = []"
| "sources (GL_ShaderSource h' src # gl) h = (if h' = h then src # sources gl h else sources gl h)"
| "sources (c # gl) h = sources gl h"

definition source_of :: "gl_trace \<Rightarrow> GLuint \<Rightarrow> string" where
  "source_of gl h = (case rev (sources gl h) of [] \<Rightarrow> [] | src # _ \<Rightarrow> src)"

fun attached :: "gl_trace \<Rightarrow> GLuint \<Rightarrow> GLuint list" where
  "attached [] p = []"
| "attached (GL_AttachShader p' h # gl) p = (if p' = p then h # attached gl p else attached gl p)"
| "attached (c # gl) p = attached gl p"

definition sim_driver :: "string list \<Rightarrow> string list \<Rightarrow> gl_driver" where
  "sim_driver rejected unlinkable =
     \<lparr> shader_name = (\<lambda>gl ty. of_nat (length gl) + 1),
       compile_status = (\<lambda>gl h. if h = 0 \<or> source_of gl h \<in> set rejected then 0 else 1),
       shader_info_log = (\<lambda>gl h. ''ERROR: 0:1: syntax error''),
       program_name = (\<lambda>gl. of_nat (length gl) + 1),
       link_status = (\<lambda>gl p. if p = 0 \<or> list_ex (\<lambda>h. source_of gl h \<in> set unlinkable) (attached gl p)
                               then 0 else 1),
       program_info_log = (\<lambda>gl p. ''ERROR: unresolved symbol'') \<rparr>"

definition good_src :: string where "good_src = ''void main(){}''"
definition bad_src :: string where "bad_src = ''void main(){}asdasdjqw''"
definition nolink_src :: string where "nolink_src = ''void f();void main(){f();}''"

definition demo_driver :: gl_driver where
  "demo_driver = sim_driver [bad_src] [nolink_src]"

definition demo_files :: file_system where
  "demo_files = (\<lambda>path. if path = ''bad.vert'' then Some bad_src else None)"

definition loaded :: "string \<Rightarrow> string \<Rightarrow> ShaderProgram" where
  "loaded vertex_src fragment_src =
     ShaderProgram_constructor\<lparr>vertex_shader_src_' := vertex_src, fragment_shader_src_' := fragment_src\<rparr>"

text \<open>A matrix that \<^verbatim>\<open>Random()\<close> may draw, and a model placed at \<open>(2, 0, 0)\<close> and turned
  by \<open>pi / 8\<close> about the z axis.\<close>

definition demo_draw :: Matrix4f where
  "demo_draw =
     Matrix4f (Vector4f (1 / 2) (- 1 / 4) 0 1) (Vector4f (- 1) (3 / 4) (1 / 8) 0)
              (Vector4f 0 (1 / 2) (- 1 / 2) (1 / 4)) (Vector4f (1 / 3) 0 (- 1) 1)"

definition demo_model :: Model where
  "demo_model =
     Model_of_vertices (Vector3f 0 0 (pi / 8)) (Vector3f 2 0 0) [[0, 0, 0], [1, 0, 0], [0, 1, 0]]"

definition demo_rotation :: Matrix3f where
  "demo_rotation =
     Matrix3f (Vector3f (cos (pi / 8)) (- sin (pi / 8)) 0)
              (Vector3f (sin (pi / 8)) (cos (pi / 8)) 0)
              (Vector3f 0 0 1)"








section \<open>Lemmas\<close>

subsection \<open>Single-precision arithmetic\<close>
































subsection \<open>The cross and the dot product\<close>









subsection \<open>The stages of Create, unfolded\<close>

lemma CompileShader_unfold:
  "CompileShader drv src ty (Some l) gl =
     (let n = shader_name drv gl ty;
          gl3 = gl @ [GL_CreateShader ty n, GL_ShaderSource n src, GL_CompileShader n];
          st = compile_status drv gl3 n;
          msg = shader_info_log drv (gl3 @ [GL_GetShaderiv n st]) n
      in if st = 0
         then (0, Some (write_info_log kNumCharsInfoLog msg (resize kNumCharsInfoLog l)),
               gl3 @ [GL_GetShaderiv n st, GL_GetShaderInfoLog n msg])
         else (n, Some l, gl3 @ [GL_GetShaderiv n st]))"
  by (cases ty)
     (simp_all add: CompileShader_def Let_def glCreateShader_def glShaderSource_def
        glCompileShader_def glGetShaderiv_def glGetShaderInfoLog_def)

lemma CreateShaderProgram_unfold:
  "CreateShaderProgram drv v f (Some l) gl =
     (let n = program_name drv gl;
          gl4 = gl @ [GL_CreateProgram n, GL_AttachShader n v, GL_AttachShader n f, GL_LinkProgram n];
          st = link_status drv gl4 n;
          msg = program_info_log drv (gl4 @ [GL_GetProgramiv n st]) n
      in if st = 0
         then (0, Some (write_info_log kNumCharsInfoLog msg (resize kNumCharsInfoLog l)),
               gl4 @ [GL_GetProgramiv n st, GL_GetProgramInfoLog n msg])
         else (n, Some l, gl4 @ [GL_GetProgramiv n st]))"
  by (simp add: CreateShaderProgram_def Let_def glCreateProgram_def glAttachShader_def
        glLinkProgram_def glGetProgramiv_def glGetProgramInfoLog_def)

lemma BuildVertexShader_unfold:
  "BuildVertexShader drv (Some l) s gl =
     (let n = shader_name drv gl VERTEX;
          gl3 = gl @ [GL_CreateShader VERTEX n, GL_ShaderSource n (vertex_shader_src_' s), GL_CompileShader n];
          st = compile_status drv gl3 n;
          msg = shader_info_log drv (gl3 @ [GL_GetShaderiv n st]) n
      in if st = 0
         then (False, Some (write_info_log kNumCharsInfoLog msg (resize kNumCharsInfoLog l)),
               s\<lparr>vertex_shader_' := 0\<rparr>,
               gl3 @ [GL_GetShaderiv n st, GL_GetShaderInfoLog n msg])
         else (n \<noteq> 0, Some l, s\<lparr>vertex_shader_' := n\<rparr>, gl3 @ [GL_GetShaderiv n st]))"
  by (simp add: BuildVertexShader_def CompileShader_unfold Let_def)

lemma BuildFragmentShader_unfold:
  "BuildFragmentShader drv (Some l) s gl =
     (let n = shader_name drv gl FRAGMENT;
          gl3 = gl @ [GL_CreateShader FRAGMENT n, GL_ShaderSource n (fragment_shader_src_' s), GL_CompileShader n];
          st = compile_status drv gl3 n;
          msg = shader_info_log drv (gl3 @ [GL_GetShaderiv n st]) n
      in if st = 0
         then (False, Some (write_info_log kNumCharsInfoLog msg (resize kNumCharsInfoLog l)),
               s\<lparr>fragment_shader_' := 0\<rparr>,
               gl3 @ [GL_GetShaderiv n st, GL_GetShaderInfoLog n msg])
         else (n \<noteq> 0, Some l, s\<lparr>fragment_shader_' := n\<rparr>, gl3 @ [GL_GetShaderiv n st]))"
  by (simp add: BuildFragmentShader_def CompileShader_unfold Let_def)

lemma LinkProgram_unfold:
  "LinkProgram drv (Some l) s gl =
     (let n = program_name drv gl;
          gl4 = gl @ [GL_CreateProgram n, GL_AttachShader n (vertex_shader_' s),
                      GL_AttachShader n (fragment_shader_' s), GL_LinkProgram n];
          st = link_status drv gl4 n;
          msg = program_info_log drv (gl4 @ [GL_GetProgramiv n st]) n;
          del = [GL_DeleteShader (vertex_shader_' s), GL_DeleteShader (fragment_shader_' s)]
      in if st = 0
         then (False, Some (write_info_log kNumCharsInfoLog msg (resize kNumCharsInfoLog l)),
               s\<lparr>shader_program_id_' := 0\<rparr>,
               gl4 @ [GL_GetProgramiv n st, GL_GetProgramInfoLog n msg] @ del)
         else (n \<noteq> 0, Some l, s\<lparr>shader_program_id_' := n\<rparr>, gl4 @ [GL_GetProgramiv n st] @ del))"
  by (simp add: LinkProgram_def CreateShaderProgram_unfold Let_def ReleaseShaderResources_def
        glDeleteShader_def)

lemma Create_vertex_failure:
  assumes "\<not> created_' s" and "BuildVertexShader drv (Some []) s gl = (False, p1, s1, gl1)"
  shows "Create drv e s gl = (False, report e (pointee [] p1), s1, gl1)"
  using assms by (simp add: Create_def)

lemma Create_fragment_failure:
  assumes "\<not> created_' s" and "BuildVertexShader drv (Some []) s gl = (True, p1, s1, gl1)"
      and "BuildFragmentShader drv p1 s1 gl1 = (False, p2, s2, gl2)"
  shows "Create drv e s gl = (False, report e (pointee [] p2), s2, gl2)"
proof -
  from assms(2) have "p1 = Some []"
    by (auto simp: BuildVertexShader_unfold Let_def split: if_splits)
  with assms show ?thesis
    by (simp add: Create_def pointee_def)
qed


lemma Create_link_releases:
  assumes "\<not> created_' s" and "BuildVertexShader drv (Some []) s gl = (True, p1, s1, gl1)"
      and "BuildFragmentShader drv p1 s1 gl1 = (True, p2, s2, gl2)"
      and "Create drv e s gl = (r, e', s', gl')"
  shows "leaked_shaders (drop (length gl) gl') = []"
  using assms
  by (auto simp: Create_def BuildVertexShader_unfold BuildFragmentShader_unfold LinkProgram_unfold
        pointee_def Let_def leaked_shaders_def split: if_splits)

subsection \<open>What each member function keeps\<close>

lemma CompileShader_Some:
  "CompileShader drv src ty (Some l) gl = (h, p, gl') \<Longrightarrow> \<exists>l'. p = Some l'"
  by (auto simp: CompileShader_def Let_def glGetShaderInfoLog_def split: prod.splits if_splits ShaderType.splits)

lemma CreateShaderProgram_Some:
  "CreateShaderProgram drv v f (Some l) gl = (h, p, gl') \<Longrightarrow> \<exists>l'. p = Some l'"
  by (auto simp: CreateShaderProgram_def Let_def glGetProgramInfoLog_def split: prod.splits if_splits)

lemma BuildVertexShader_fields:
  "BuildVertexShader drv p s gl = (ok, p', s', gl') \<Longrightarrow>
     created_' s' = created_' s \<and> shader_program_id_' s' = shader_program_id_' s
     \<and> ok = (vertex_shader_' s' \<noteq> 0)"
  by (auto simp: BuildVertexShader_def Let_def split: prod.splits)

lemma BuildFragmentShader_fields:
  "BuildFragmentShader drv p s gl = (ok, p', s', gl') \<Longrightarrow>
     created_' s' = created_' s \<and> shader_program_id_' s' = shader_program_id_' s
     \<and> ok = (fragment_shader_' s' \<noteq> 0)"
  by (auto simp: BuildFragmentShader_def Let_def split: prod.splits)

lemma LinkProgram_fields:
  "LinkProgram drv p s gl = (ok, p', s', gl') \<Longrightarrow>
     created_' s' = created_' s \<and> ok = (shader_program_id_' s' \<noteq> 0)"
  by (auto simp: LinkProgram_def Let_def split: prod.splits)

lemma Create_created:
  "created_' s \<Longrightarrow> Create drv e s gl = (True, e, s, gl)"
  by (simp add: Create_def)

lemma Create_result:
  assumes "Create drv e s gl = (r, e', s', gl')"
  shows "r = created_' s'"
proof (cases "created_' s")
  case True
  with assms show ?thesis by (simp add: Create_def)
next
  case False
  obtain ok1 p1 s1 gl1 where b1: "BuildVertexShader drv (Some []) s gl = (ok1, p1, s1, gl1)"
    by (metis prod_cases4)
  obtain ok2 p2 s2 gl2 where b2: "BuildFragmentShader drv (Some (pointee [] p1)) s1 gl1 = (ok2, p2, s2, gl2)"
    by (metis prod_cases4)
  obtain ok3 p3 s3 gl3 where b3: "LinkProgram drv (Some (pointee (pointee [] p1) p2)) s2 gl2 = (ok3, p3, s3, gl3)"
    by (metis prod_cases4)
  from BuildVertexShader_fields [OF b1] BuildFragmentShader_fields [OF b2] LinkProgram_fields [OF b3]
    assms False b1 b2 b3
  show ?thesis
    by (auto simp: Create_def Let_def split: if_splits)
qed

lemma Create_consistent:
  assumes "Create drv e s gl = (r, e', s', gl')" and "consistent s"
  shows "consistent s'"
proof (cases "created_' s")
  case True
  with assms show ?thesis by (simp add: Create_def)
next
  case False
  obtain ok1 p1 s1 gl1 where b1: "BuildVertexShader drv (Some []) s gl = (ok1, p1, s1, gl1)"
    by (metis prod_cases4)
  obtain ok2 p2 s2 gl2 where b2: "BuildFragmentShader drv (Some (pointee [] p1)) s1 gl1 = (ok2, p2, s2, gl2)"
    by (metis prod_cases4)
  obtain ok3 p3 s3 gl3 where b3: "LinkProgram drv (Some (pointee (pointee [] p1) p2)) s2 gl2 = (ok3, p3, s3, gl3)"
    by (metis prod_cases4)
  from BuildVertexShader_fields [OF b1] BuildFragmentShader_fields [OF b2] LinkProgram_fields [OF b3]
    assms False b1 b2 b3
  show ?thesis
    by (auto simp: Create_def Let_def consistent_def split: if_splits)
qed

lemma Create_monotone:
  assumes "Create drv e s gl = (r, e', s', gl')" and "created_' s"
  shows "s' = s \<and> gl' = gl \<and> r \<and> e' = e"
  using assms by (simp add: Create_def)


lemma LoadVertexShaderFromString_fields:
  "LoadVertexShaderFromString src s = (r, s') \<Longrightarrow>
     created_' s' = created_' s \<and> shader_program_id_' s' = shader_program_id_' s"
  by (auto simp: LoadVertexShaderFromString_def)

lemma LoadFragmentShaderFromString_fields:
  "LoadFragmentShaderFromString src s = (r, s') \<Longrightarrow>
     created_' s' = created_' s \<and> shader_program_id_' s' = shader_program_id_' s"
  by (auto simp: LoadFragmentShaderFromString_def)

lemma LoadVertexShaderFromFile_fields:
  "LoadVertexShaderFromFile fs path s = (r, s') \<Longrightarrow>
     created_' s' = created_' s \<and> shader_program_id_' s' = shader_program_id_' s"
  by (auto simp: LoadVertexShaderFromFile_def split: prod.splits)

lemma LoadFragmentShaderFromFile_fields:
  "LoadFragmentShaderFromFile fs path s = (r, s') \<Longrightarrow>
     created_' s' = created_' s \<and> shader_program_id_' s' = shader_program_id_' s"
  by (auto simp: LoadFragmentShaderFromFile_def split: prod.splits)

lemmas Load_fields =
  LoadVertexShaderFromString_fields LoadFragmentShaderFromString_fields
  LoadVertexShaderFromFile_fields LoadFragmentShaderFromFile_fields

lemma invoke_consistent:
  assumes "invoke drv fs c (s, gl) = (r, s', gl')" and "consistent s"
  shows "consistent s'"
proof (cases c)
  case (Call_Create e)
  with assms show ?thesis
    by (auto split: prod.splits dest: Create_consistent)
next
  case Call_Use
  with assms show ?thesis
    by (auto split: prod.splits)
qed (use assms in \<open>auto simp: consistent_def split: prod.splits dest: Load_fields\<close>)

lemma invoke_created:
  assumes "invoke drv fs c (s, gl) = (r, s', gl')"
  shows "created_' s' = (created_' s \<or> (is_Create c \<and> r))"
proof (cases c)
  case (Call_Create e)
  then obtain e' where cr: "Create drv e s gl = (r, e', s', gl')"
    using assms by (auto split: prod.splits)
  show ?thesis
  proof (cases "created_' s")
    case True
    with cr Call_Create show ?thesis by (simp add: Create_def)
  next
    case False
    with Create_result [OF cr] Call_Create show ?thesis by simp
  qed
next
  case Call_Use
  with assms show ?thesis
    by (auto split: prod.splits)
qed (use assms in \<open>auto split: prod.splits dest: Load_fields\<close>)

lemma invoke_keeps_program:
  assumes "invoke drv fs c (s, gl) = (r, s', gl')" and "created_' s"
  shows "shader_program_id_' s' = shader_program_id_' s"
proof (cases c)
  case (Call_Create e)
  with assms show ?thesis
    by (auto simp: Create_def split: prod.splits)
next
  case Call_Use
  with assms show ?thesis
    by (auto split: prod.splits)
qed (use assms in \<open>auto split: prod.splits dest: Load_fields\<close>)

lemma run_consistent:
  "run drv fs cs (s, gl) = (h, s', gl') \<Longrightarrow> consistent s \<Longrightarrow> consistent s'"
proof (induction cs arbitrary: s gl h)
  case Nil
  then show ?case by simp
next
  case (Cons c cs)
  obtain r s1 gl1 where i: "invoke drv fs c (s, gl) = (r, s1, gl1)"
    by (metis prod_cases3)
  obtain h1 where r: "run drv fs cs (s1, gl1) = (h1, s', gl')"
    using Cons.prems(1) i by (auto split: prod.splits)
  from invoke_consistent [OF i Cons.prems(2)] Cons.IH [OF r] show ?case by simp
qed

lemma run_created:
  "run drv fs cs (s, gl) = (h, s', gl') \<Longrightarrow> created_' s' = (created_' s \<or> Create_succeeded h)"
proof (induction cs arbitrary: s gl h)
  case Nil
  then show ?case by (auto simp: Create_succeeded_def)
next
  case (Cons c cs)
  obtain r s1 gl1 where i: "invoke drv fs c (s, gl) = (r, s1, gl1)"
    by (metis prod_cases3)
  obtain h1 where r: "run drv fs cs (s1, gl1) = (h1, s', gl')" and h: "h = (c, r) # h1"
    using Cons.prems(1) i by (auto split: prod.splits)
  from invoke_created [OF i] Cons.IH [OF r] h show ?case
    by (auto simp: Create_succeeded_def)
qed

lemma run_keeps_program:
  "run drv fs cs (s, gl) = (h, s', gl') \<Longrightarrow> created_' s \<Longrightarrow>
     created_' s' \<and> shader_program_id_' s' = shader_program_id_' s"
proof (induction cs arbitrary: s gl h)
  case Nil
  then show ?case by simp
next
  case (Cons c cs)
  obtain r s1 gl1 where i: "invoke drv fs c (s, gl) = (r, s1, gl1)"
    by (metis prod_cases3)
  obtain h1 where r: "run drv fs cs (s1, gl1) = (h1, s', gl')"
    using Cons.prems(1) i by (auto split: prod.splits)
  from invoke_created [OF i] Cons.prems(2) have c1: "created_' s1" by simp
  from Cons.IH [OF r c1] invoke_keeps_program [OF i Cons.prems(2)] show ?case by simp
qed

lemma constructor_consistent: "consistent ShaderProgram_constructor"
  by (simp add: consistent_def ShaderProgram_constructor_def)


lemma run_append:
  "run drv fs (cs @ ds) w =
     (case run drv fs cs w of
        (h, w') \<Rightarrow> (case run drv fs ds w' of (k, w'') \<Rightarrow> (h @ k, w'')))"
  by (induction cs arbitrary: w) (auto split: prod.splits)

subsection \<open>Facts for evaluating the concrete inputs\<close>

lemmas demo_defs =
  demo_driver_def sim_driver_def source_of_def loaded_def ShaderProgram_constructor_def
  info_buffer_def good_src_def bad_src_def nolink_src_def demo_files_def

lemmas load_defs =
  LoadVertexShaderFromString_def LoadFragmentShaderFromString_def LoadVertexShaderFromFile_def
  LoadFragmentShaderFromFile_def LoadShaderFromFile_def pointee_def

lemmas stage_unfolds =
  BuildVertexShader_unfold BuildFragmentShader_unfold LinkProgram_unfold Let_def

section \<open>The model matrix and the transformations\<close>

text \<open>
  C1. The claim: \<open>ComputeModelMatrix\<close> returns the translation by the position times the
  rotation given by the orientation, so that the result applied to \<open>[v; 1]\<close> is
  \<open>[R v + t; 1]\<close>. The code returns a random matrix instead. Whatever \<^verbatim>\<open>Random()\<close> draws,
  the result does not depend on the orientation or the position of the model; and for a
  model whose position has an x coordinate above 1, the result applied to the origin
  \<open>[0; 1]\<close> differs from \<open>[R 0 + t; 1]\<close>, for every matrix \<open>R\<close>.
\<close>

theorem ComputeModelMatrix_ignores_model:
  assumes "Random_range rnd" and "1 < vx (position_' m)"
  shows "ComputeModelMatrix rnd (set_position t (set_orientation a m)) = ComputeModelMatrix rnd m
     \<and> MultiplyVectorAndMatrix (ComputeModelMatrix rnd m) (homogeneous Zero3f) \<noteq>
         homogeneous (Add3dPoints (mat3_times_vec R Zero3f) (position_' m))"
proof -
  from assms(1) have "ww (row0 rnd) \<le> 1"
    by (simp add: Random_range_def row_in_range_def coeff_in_range_def)
  with assms(2) have "ww (row0 rnd) \<noteq> vx (position_' m)"
    by simp
  then show ?thesis
    by (simp add: ComputeModelMatrix_def MultiplyVectorAndMatrix_def mat4_times_vec_def
          dot4_def homogeneous_def Zero3f_def Add3dPoints_def plus3_def mat3_times_vec_def
          dot3_def)
qed

theorem ComputeModelMatrix_ignores_model_witness:
  "Random_range demo_draw \<and> 1 < vx (position_' demo_model)
   \<and> ComputeModelMatrix demo_draw (set_position (Vector3f 0 5 0) (set_orientation UnitX demo_model)) =
       demo_draw
   \<and> MultiplyVectorAndMatrix (ComputeModelMatrix demo_draw demo_model) (homogeneous Zero3f) =
       Vector4f 1 0 (1 / 4) 1
   \<and> homogeneous (Add3dPoints (mat3_times_vec demo_rotation Zero3f) (position_' demo_model)) =
       Vector4f 2 0 0 1
   \<and> MultiplyVectorAndMatrix (ComputeModelMatrix demo_draw demo_model) (homogeneous Zero3f) \<noteq>
       homogeneous (Add3dPoints (mat3_times_vec demo_rotation Zero3f) (position_' demo_model))"
proof -
  have range: "Random_range demo_draw"
    by (simp add: Random_range_def row_in_range_def coeff_in_range_def demo_draw_def)
  have far: "1 < vx (position_' demo_model)"
    by (simp add: demo_model_def Model_of_vertices_def)
  have drawn: "ComputeModelMatrix demo_draw demo_model = demo_draw"
    by (simp add: ComputeModelMatrix_def)
  have got: "MultiplyVectorAndMatrix (ComputeModelMatrix demo_draw demo_model) (homogeneous Zero3f) =
      Vector4f 1 0 (1 / 4) 1"
    by (simp add: ComputeModelMatrix_def MultiplyVectorAndMatrix_def mat4_times_vec_def dot4_def
          homogeneous_def Zero3f_def demo_draw_def)
  have asked: "homogeneous (Add3dPoints (mat3_times_vec demo_rotation Zero3f) (position_' demo_model)) =
      Vector4f 2 0 0 1"
    by (simp add: homogeneous_def Add3dPoints_def plus3_def mat3_times_vec_def dot3_def Zero3f_def
          demo_model_def Model_of_vertices_def)
  from ComputeModelMatrix_ignores_model [OF range far, of "Vector3f 0 5 0" UnitX demo_rotation]
    range far drawn got asked
  show ?thesis by simp
qed

text \<open>
  C7. The claim: \<open>ComputeTranslationMatrix offset\<close> is the identity with the offset in the
  last column, so that it maps \<open>[p; 1]\<close> to \<open>[p + offset; 1]\<close>. The code returns a random
  matrix instead: for an offset whose x coordinate is above 1 and every draw of
  \<^verbatim>\<open>Random()\<close>, the result is not that matrix and does not move the origin to the offset.
\<close>

theorem ComputeTranslationMatrix_ignores_offset:
  assumes "Random_range rnd" and "1 < vx offset"
  shows "ComputeTranslationMatrix rnd offset \<noteq> identity_with_offset offset
     \<and> head3 (MultiplyVectorAndMatrix (ComputeTranslationMatrix rnd offset) (homogeneous Zero3f)) \<noteq>
         Add3dPoints Zero3f offset"
proof -
  from assms(1) have "ww (row0 rnd) \<le> 1"
    by (simp add: Random_range_def row_in_range_def coeff_in_range_def)
  with assms(2) have ne: "ww (row0 rnd) \<noteq> vx offset"
    by simp
  have "rnd \<noteq> identity_with_offset offset"
  proof
    assume "rnd = identity_with_offset offset"
    then have "ww (row0 rnd) = vx offset"
      by (simp add: identity_with_offset_def)
    with ne show False by simp
  qed
  moreover from ne have "Vector3f (ww (row0 rnd)) (ww (row1 rnd)) (ww (row2 rnd)) \<noteq> offset"
    by (cases offset) simp
  ultimately show ?thesis
    by (simp add: ComputeTranslationMatrix_def MultiplyVectorAndMatrix_def mat4_times_vec_def
          dot4_def homogeneous_def head3_def Zero3f_def Add3dPoints_def plus3_def)
qed

theorem ComputeTranslationMatrix_ignores_offset_witness:
  "Random_range demo_draw \<and> 1 < vx (Vector3f 2 0 0)
   \<and> ComputeTranslationMatrix demo_draw (Vector3f 2 0 0) \<noteq> identity_with_offset (Vector3f 2 0 0)
   \<and> head3 (MultiplyVectorAndMatrix (ComputeTranslationMatrix demo_draw (Vector3f 2 0 0))
        (homogeneous Zero3f)) = Vector3f 1 0 (1 / 4)
   \<and> Add3dPoints Zero3f (Vector3f 2 0 0) = Vector3f 2 0 0"
proof -
  have range: "Random_range demo_draw"
    by (simp add: Random_range_def row_in_range_def coeff_in_range_def demo_draw_def)
  have far: "1 < vx (Vector3f 2 0 0)"
    by simp
  have got: "head3 (MultiplyVectorAndMatrix (ComputeTranslationMatrix demo_draw (Vector3f 2 0 0))
        (homogeneous Zero3f)) = Vector3f 1 0 (1 / 4)"
    by (simp add: ComputeTranslationMatrix_def MultiplyVectorAndMatrix_def mat4_times_vec_def
          dot4_def homogeneous_def head3_def Zero3f_def demo_draw_def)
  have asked: "Add3dPoints Zero3f (Vector3f 2 0 0) = Vector3f 2 0 0"
    by (simp add: Add3dPoints_def plus3_def Zero3f_def)
  from ComputeTranslationMatrix_ignores_offset [OF range far] range got asked
  show ?thesis by simp
qed

section \<open>The perspective projection\<close>




section \<open>The cross product\<close>




section \<open>The shader program\<close>

text \<open>
  C2. The claim: on every path through \<open>Create\<close>, the shaders created are passed to
  \<^verbatim>\<open>glDeleteShader\<close> before \<open>Create\<close> returns. The code does so only in \<open>LinkProgram\<close>.
  When the vertex shader does not compile, \<open>Create\<close> returns with the trace of the vertex
  stage, and the shader that stage created is not deleted; when the fragment shader does
  not compile, \<open>Create\<close> returns with the trace of the two stages, and neither the compiled
  vertex shader nor the fragment shader is deleted.
\<close>

theorem Create_compile_failure_leaks:
  assumes "\<not> created_' s"
  shows "(BuildVertexShader drv (Some []) s gl = (False, p1, s1, gl1)
            \<and> shader_name drv gl VERTEX \<noteq> 0 \<longrightarrow>
          Create drv e s gl = (False, report e (pointee [] p1), s1, gl1)
          \<and> leaked_shaders (drop (length gl) gl1) = [shader_name drv gl VERTEX])
       \<and> (BuildVertexShader drv (Some []) s gl = (True, p1, s1, gl1)
            \<and> BuildFragmentShader drv p1 s1 gl1 = (False, p2, s2, gl2) \<longrightarrow>
          Create drv e s gl = (False, report e (pointee [] p2), s2, gl2)
          \<and> vertex_shader_' s2 \<noteq> 0
          \<and> leaked_shaders (drop (length gl) gl2) =
              vertex_shader_' s2 #
                (if shader_name drv gl1 FRAGMENT = 0 then [] else [shader_name drv gl1 FRAGMENT]))"
proof (intro conjI impI)
  assume a: "BuildVertexShader drv (Some []) s gl = (False, p1, s1, gl1)
            \<and> shader_name drv gl VERTEX \<noteq> 0"
  with assms show "Create drv e s gl = (False, report e (pointee [] p1), s1, gl1)"
    by (simp add: Create_vertex_failure)
  from a show "leaked_shaders (drop (length gl) gl1) = [shader_name drv gl VERTEX]"
    by (auto simp: BuildVertexShader_unfold Let_def leaked_shaders_def split: if_splits)
next
  assume a: "BuildVertexShader drv (Some []) s gl = (True, p1, s1, gl1)
            \<and> BuildFragmentShader drv p1 s1 gl1 = (False, p2, s2, gl2)"
  with assms show "Create drv e s gl = (False, report e (pointee [] p2), s2, gl2)"
    by (simp add: Create_fragment_failure)
  from a show "vertex_shader_' s2 \<noteq> 0"
    by (auto simp: BuildVertexShader_unfold BuildFragmentShader_unfold Let_def split: if_splits)
  from a show "leaked_shaders (drop (length gl) gl2) =
              vertex_shader_' s2 #
                (if shader_name drv gl1 FRAGMENT = 0 then [] else [shader_name drv gl1 FRAGMENT])"
    by (auto simp: BuildVertexShader_unfold BuildFragmentShader_unfold Let_def leaked_shaders_def
          split: if_splits)
qed

theorem Create_compile_failure_leaks_witness:
  "\<not> created_' (loaded bad_src good_src)
   \<and> BuildVertexShader demo_driver (Some []) (loaded bad_src good_src) [] =
       (False, Some (info_buffer ''ERROR: 0:1: syntax error''),
        (loaded bad_src good_src)\<lparr>vertex_shader_' := 0\<rparr>,
        [GL_CreateShader VERTEX 1, GL_ShaderSource 1 bad_src, GL_CompileShader 1,
         GL_GetShaderiv 1 0, GL_GetShaderInfoLog 1 ''ERROR: 0:1: syntax error''])
   \<and> shader_name demo_driver [] VERTEX = 1
   \<and> Create demo_driver (Some []) (loaded bad_src good_src) [] =
       (False, Some (info_buffer ''ERROR: 0:1: syntax error''),
        (loaded bad_src good_src)\<lparr>vertex_shader_' := 0\<rparr>,
        [GL_CreateShader VERTEX 1, GL_ShaderSource 1 bad_src, GL_CompileShader 1,
         GL_GetShaderiv 1 0, GL_GetShaderInfoLog 1 ''ERROR: 0:1: syntax error''])
   \<and> leaked_shaders
        [GL_CreateShader VERTEX 1, GL_ShaderSource 1 bad_src, GL_CompileShader 1,
         GL_GetShaderiv 1 0, GL_GetShaderInfoLog 1 ''ERROR: 0:1: syntax error''] = [1]
   \<and> \<not> created_' (loaded good_src bad_src)
   \<and> BuildVertexShader demo_driver (Some []) (loaded good_src bad_src) [] =
       (True, Some [], (loaded good_src bad_src)\<lparr>vertex_shader_' := 1\<rparr>,
        [GL_CreateShader VERTEX 1, GL_ShaderSource 1 good_src, GL_CompileShader 1,
         GL_GetShaderiv 1 1])
   \<and> Create demo_driver (Some []) (loaded good_src bad_src) [] =
       (False, Some (info_buffer ''ERROR: 0:1: syntax error''),
        (loaded good_src bad_src)\<lparr>vertex_shader_' := 1, fragment_shader_' := 0\<rparr>,
        [GL_CreateShader VERTEX 1, GL_ShaderSource 1 good_src, GL_CompileShader 1,
         GL_GetShaderiv 1 1,
         GL_CreateShader FRAGMENT 5, GL_ShaderSource 5 bad_src, GL_CompileShader 5,
         GL_GetShaderiv 5 0, GL_GetShaderInfoLog 5 ''ERROR: 0:1: syntax error''])
   \<and> leaked_shaders
        [GL_CreateShader VERTEX 1, GL_ShaderSource 1 good_src, GL_CompileShader 1,
         GL_GetShaderiv 1 1,
         GL_CreateShader FRAGMENT 5, GL_ShaderSource 5 bad_src, GL_CompileShader 5,
         GL_GetShaderiv 5 0, GL_GetShaderInfoLog 5 ''ERROR: 0:1: syntax error''] = [1, 5]"
proof -
  let ?va = "[GL_CreateShader VERTEX 1, GL_ShaderSource 1 bad_src, GL_CompileShader 1,
         GL_GetShaderiv 1 0, GL_GetShaderInfoLog 1 ''ERROR: 0:1: syntax error'']"
  let ?vb = "[GL_CreateShader VERTEX 1, GL_ShaderSource 1 good_src, GL_CompileShader 1,
         GL_GetShaderiv 1 1]"
  let ?fb = "?vb @ [GL_CreateShader FRAGMENT 5, GL_ShaderSource 5 bad_src, GL_CompileShader 5,
         GL_GetShaderiv 5 0, GL_GetShaderInfoLog 5 ''ERROR: 0:1: syntax error'']"
  have na: "\<not> created_' (loaded bad_src good_src)"
    by (simp add: loaded_def ShaderProgram_constructor_def)
  have nb: "\<not> created_' (loaded good_src bad_src)"
    by (simp add: loaded_def ShaderProgram_constructor_def)
  have name: "shader_name demo_driver [] VERTEX = 1"
    by (simp add: demo_driver_def sim_driver_def)
  have va: "BuildVertexShader demo_driver (Some []) (loaded bad_src good_src) [] =
       (False, Some (info_buffer ''ERROR: 0:1: syntax error''),
        (loaded bad_src good_src)\<lparr>vertex_shader_' := 0\<rparr>, ?va)"
    by (simp add: BuildVertexShader_unfold Let_def demo_driver_def sim_driver_def source_of_def
          loaded_def ShaderProgram_constructor_def info_buffer_def good_src_def bad_src_def)
  have vb: "BuildVertexShader demo_driver (Some []) (loaded good_src bad_src) [] =
       (True, Some [], (loaded good_src bad_src)\<lparr>vertex_shader_' := 1\<rparr>, ?vb)"
    by (simp add: BuildVertexShader_unfold Let_def demo_driver_def sim_driver_def source_of_def
          loaded_def ShaderProgram_constructor_def good_src_def bad_src_def)
  have fb: "BuildFragmentShader demo_driver (Some []) ((loaded good_src bad_src)\<lparr>vertex_shader_' := 1\<rparr>) ?vb =
       (False, Some (info_buffer ''ERROR: 0:1: syntax error''),
        (loaded good_src bad_src)\<lparr>vertex_shader_' := 1, fragment_shader_' := 0\<rparr>, ?fb)"
    by (simp add: BuildFragmentShader_unfold Let_def demo_driver_def sim_driver_def source_of_def
          loaded_def ShaderProgram_constructor_def info_buffer_def good_src_def bad_src_def)
  from Create_compile_failure_leaks [OF na, where drv = demo_driver and gl = "[]" and e = "Some []"] va name
  have a: "Create demo_driver (Some []) (loaded bad_src good_src) [] =
       (False, Some (info_buffer ''ERROR: 0:1: syntax error''),
        (loaded bad_src good_src)\<lparr>vertex_shader_' := 0\<rparr>, ?va)
     \<and> leaked_shaders ?va = [1]"
    by (simp add: report_def pointee_def)
  from Create_compile_failure_leaks [OF nb, where drv = demo_driver and gl = "[]" and e = "Some []"] vb fb
  have b: "Create demo_driver (Some []) (loaded good_src bad_src) [] =
       (False, Some (info_buffer ''ERROR: 0:1: syntax error''),
        (loaded good_src bad_src)\<lparr>vertex_shader_' := 1, fragment_shader_' := 0\<rparr>, ?fb)
     \<and> leaked_shaders ?fb = [1, 5]"
    by (simp add: report_def pointee_def demo_driver_def sim_driver_def)
  from na nb name va vb a b show ?thesis by simp
qed



text \<open>
  C4. Once a call of \<open>Create\<close> has returned true, every later call of \<open>Create\<close>, after any
  calls of the public member functions in between, returns true, makes no call to the
  graphics library, leaves the object and the caller's string as they are, and the
  program id is still the one the successful call stored.
\<close>

theorem Create_idempotent:
  assumes "Create drv e s gl = (True, e', s', gl')"
      and "run drv fs cs (s', gl') = (h, s'', gl'')"
  shows "Create drv e2 s'' gl'' = (True, e2, s'', gl'')
     \<and> shader_program_id_' s'' = shader_program_id_' s'"
proof -
  from Create_result [OF assms(1)] have "created_' s'" by simp
  from run_keeps_program [OF assms(2) this] show ?thesis
    by (simp add: Create_created)
qed

theorem Create_idempotent_witness:
  "Create demo_driver (Some []) (loaded good_src good_src) [] =
     (True, Some [], (loaded good_src good_src)
          \<lparr>vertex_shader_' := 1, fragment_shader_' := 5, shader_program_id_' := 9,
           created_' := True\<rparr>,
      [GL_CreateShader VERTEX 1, GL_ShaderSource 1 good_src, GL_CompileShader 1,
         GL_GetShaderiv 1 1,
         GL_CreateShader FRAGMENT 5, GL_ShaderSource 5 good_src, GL_CompileShader 5,
         GL_GetShaderiv 5 1,
         GL_CreateProgram 9, GL_AttachShader 9 1, GL_AttachShader 9 5, GL_LinkProgram 9,
         GL_GetProgramiv 9 1, GL_DeleteShader 1, GL_DeleteShader 5])
   \<and> run demo_driver demo_files [Call_Use, Call_LoadVertexShaderFromString bad_src]
       ((loaded good_src good_src)
          \<lparr>vertex_shader_' := 1, fragment_shader_' := 5, shader_program_id_' := 9,
           created_' := True\<rparr>,
        [GL_CreateShader VERTEX 1, GL_ShaderSource 1 good_src, GL_CompileShader 1,
         GL_GetShaderiv 1 1,
         GL_CreateShader FRAGMENT 5, GL_ShaderSource 5 good_src, GL_CompileShader 5,
         GL_GetShaderiv 5 1,
         GL_CreateProgram 9, GL_AttachShader 9 1, GL_AttachShader 9 5, GL_LinkProgram 9,
         GL_GetProgramiv 9 1, GL_DeleteShader 1, GL_DeleteShader 5]) =
     ([(Call_Use, True), (Call_LoadVertexShaderFromString bad_src, True)],
      (loaded bad_src good_src)
          \<lparr>vertex_shader_' := 1, fragment_shader_' := 5, shader_program_id_' := 9,
           created_' := True\<rparr>,
      [GL_CreateShader VERTEX 1, GL_ShaderSource 1 good_src, GL_CompileShader 1,
         GL_GetShaderiv 1 1,
         GL_CreateShader FRAGMENT 5, GL_ShaderSource 5 good_src, GL_CompileShader 5,
         GL_GetShaderiv 5 1,
         GL_CreateProgram 9, GL_AttachShader 9 1, GL_AttachShader 9 5, GL_LinkProgram 9,
         GL_GetProgramiv 9 1, GL_DeleteShader 1, GL_DeleteShader 5] @ [GL_UseProgram 9])
   \<and> Create demo_driver None
       ((loaded bad_src good_src)
          \<lparr>vertex_shader_' := 1, fragment_shader_' := 5, shader_program_id_' := 9,
           created_' := True\<rparr>)
       ([GL_CreateShader VERTEX 1, GL_ShaderSource 1 good_src, GL_CompileShader 1,
         GL_GetShaderiv 1 1,
         GL_CreateShader FRAGMENT 5, GL_ShaderSource 5 good_src, GL_CompileShader 5,
         GL_GetShaderiv 5 1,
         GL_CreateProgram 9, GL_AttachShader 9 1, GL_AttachShader 9 5, GL_LinkProgram 9,
         GL_GetProgramiv 9 1, GL_DeleteShader 1, GL_DeleteShader 5] @ [GL_UseProgram 9]) =
     (True, None,
      (loaded bad_src good_src)
          \<lparr>vertex_shader_' := 1, fragment_shader_' := 5, shader_program_id_' := 9,
           created_' := True\<rparr>,
      [GL_CreateShader VERTEX 1, GL_ShaderSource 1 good_src, GL_CompileShader 1,
         GL_GetShaderiv 1 1,
         GL_CreateShader FRAGMENT 5, GL_ShaderSource 5 good_src, GL_CompileShader 5,
         GL_GetShaderiv 5 1,
         GL_CreateProgram 9, GL_AttachShader 9 1, GL_AttachShader 9 5, GL_LinkProgram 9,
         GL_GetProgramiv 9 1, GL_DeleteShader 1, GL_DeleteShader 5] @ [GL_UseProgram 9])
   \<and> shader_program_id_'
       ((loaded bad_src good_src)
          \<lparr>vertex_shader_' := 1, fragment_shader_' := 5, shader_program_id_' := 9,
           created_' := True\<rparr>) = 9"
proof -
  have c: "Create demo_driver (Some []) (loaded good_src good_src) [] =
     (True, Some [], (loaded good_src good_src)
          \<lparr>vertex_shader_' := 1, fragment_shader_' := 5, shader_program_id_' := 9,
           created_' := True\<rparr>,
      [GL_CreateShader VERTEX 1, GL_ShaderSource 1 good_src, GL_CompileShader 1,
         GL_GetShaderiv 1 1,
         GL_CreateShader FRAGMENT 5, GL_ShaderSource 5 good_src, GL_CompileShader 5,
         GL_GetShaderiv 5 1,
         GL_CreateProgram 9, GL_AttachShader 9 1, GL_AttachShader 9 5, GL_LinkProgram 9,
         GL_GetProgramiv 9 1, GL_DeleteShader 1, GL_DeleteShader 5])"
    by (simp add: Create_def stage_unfolds pointee_def demo_defs)
  have r: "run demo_driver demo_files [Call_Use, Call_LoadVertexShaderFromString bad_src]
       ((loaded good_src good_src)
          \<lparr>vertex_shader_' := 1, fragment_shader_' := 5, shader_program_id_' := 9,
           created_' := True\<rparr>,
        [GL_CreateShader VERTEX 1, GL_ShaderSource 1 good_src, GL_CompileShader 1,
         GL_GetShaderiv 1 1,
         GL_CreateShader FRAGMENT 5, GL_ShaderSource 5 good_src, GL_CompileShader 5,
         GL_GetShaderiv 5 1,
         GL_CreateProgram 9, GL_AttachShader 9 1, GL_AttachShader 9 5, GL_LinkProgram 9,
         GL_GetProgramiv 9 1, GL_DeleteShader 1, GL_DeleteShader 5]) =
     ([(Call_Use, True), (Call_LoadVertexShaderFromString bad_src, True)],
      (loaded bad_src good_src)
          \<lparr>vertex_shader_' := 1, fragment_shader_' := 5, shader_program_id_' := 9,
           created_' := True\<rparr>,
      [GL_CreateShader VERTEX 1, GL_ShaderSource 1 good_src, GL_CompileShader 1,
         GL_GetShaderiv 1 1,
         GL_CreateShader FRAGMENT 5, GL_ShaderSource 5 good_src, GL_CompileShader 5,
         GL_GetShaderiv 5 1,
         GL_CreateProgram 9, GL_AttachShader 9 1, GL_AttachShader 9 5, GL_LinkProgram 9,
         GL_GetProgramiv 9 1, GL_DeleteShader 1, GL_DeleteShader 5] @ [GL_UseProgram 9])"
    by (simp add: load_defs Use_def glUseProgram_def demo_defs)
  from Create_idempotent [OF c r, of None] c r show ?thesis
    by (simp add: demo_defs)
qed

text \<open>
  C5. After any calls of the public member functions on a fresh object: if no call of
  \<open>Create\<close> has returned true, \<open>Use\<close> returns false and makes no call to the graphics
  library; if one has, \<open>Use\<close> returns true, after activating the program.
\<close>

theorem Use_after_Create:
  assumes "run drv fs cs (ShaderProgram_constructor, gl0) = (h, s, gl)"
  shows "if Create_succeeded h
         then Use s gl = (True, gl @ [GL_UseProgram (shader_program_id_' s)])
         else Use s gl = (False, gl)"
proof -
  from run_created [OF assms] have "created_' s = Create_succeeded h"
    by (simp add: ShaderProgram_constructor_def)
  then show ?thesis
    by (simp add: Use_def glUseProgram_def)
qed

theorem Use_after_Create_witness:
  "run demo_driver demo_files
     [Call_LoadVertexShaderFromString good_src, Call_LoadFragmentShaderFromString good_src,
      Call_Create (Some [])]
     (ShaderProgram_constructor, []) =
     ([(Call_LoadVertexShaderFromString good_src, True),
       (Call_LoadFragmentShaderFromString good_src, True), (Call_Create (Some []), True)],
      (loaded good_src good_src)
          \<lparr>vertex_shader_' := 1, fragment_shader_' := 5, shader_program_id_' := 9,
           created_' := True\<rparr>,
      [GL_CreateShader VERTEX 1, GL_ShaderSource 1 good_src, GL_CompileShader 1,
         GL_GetShaderiv 1 1,
         GL_CreateShader FRAGMENT 5, GL_ShaderSource 5 good_src, GL_CompileShader 5,
         GL_GetShaderiv 5 1,
         GL_CreateProgram 9, GL_AttachShader 9 1, GL_AttachShader 9 5, GL_LinkProgram 9,
         GL_GetProgramiv 9 1, GL_DeleteShader 1, GL_DeleteShader 5])
   \<and> Create_succeeded
       [(Call_LoadVertexShaderFromString good_src, True),
        (Call_LoadFragmentShaderFromString good_src, True), (Call_Create (Some []), True)]
   \<and> Use ((loaded good_src good_src)
          \<lparr>vertex_shader_' := 1, fragment_shader_' := 5, shader_program_id_' := 9,
           created_' := True\<rparr>)
       [GL_CreateShader VERTEX 1, GL_ShaderSource 1 good_src, GL_CompileShader 1,
         GL_GetShaderiv 1 1,
         GL_CreateShader FRAGMENT 5, GL_ShaderSource 5 good_src, GL_CompileShader 5,
         GL_GetShaderiv 5 1,
         GL_CreateProgram 9, GL_AttachShader 9 1, GL_AttachShader 9 5, GL_LinkProgram 9,
         GL_GetProgramiv 9 1, GL_DeleteShader 1, GL_DeleteShader 5] =
     (True,
      [GL_CreateShader VERTEX 1, GL_ShaderSource 1 good_src, GL_CompileShader 1,
         GL_GetShaderiv 1 1,
         GL_CreateShader FRAGMENT 5, GL_ShaderSource 5 good_src, GL_CompileShader 5,
         GL_GetShaderiv 5 1,
         GL_CreateProgram 9, GL_AttachShader 9 1, GL_AttachShader 9 5, GL_LinkProgram 9,
         GL_GetProgramiv 9 1, GL_DeleteShader 1, GL_DeleteShader 5] @ [GL_UseProgram 9])
   \<and> run demo_driver demo_files
     [Call_LoadVertexShaderFromFile ''bad.vert'', Call_LoadFragmentShaderFromString good_src,
      Call_Create (Some [])]
     (ShaderProgram_constructor, []) =
     ([(Call_LoadVertexShaderFromFile ''bad.vert'', True),
       (Call_LoadFragmentShaderFromString good_src, True), (Call_Create (Some []), False)],
      loaded bad_src good_src,
      [GL_CreateShader VERTEX 1, GL_ShaderSource 1 bad_src, GL_CompileShader 1,
         GL_GetShaderiv 1 0, GL_GetShaderInfoLog 1 ''ERROR: 0:1: syntax error''])
   \<and> \<not> Create_succeeded
       [(Call_LoadVertexShaderFromFile ''bad.vert'', True),
        (Call_LoadFragmentShaderFromString good_src, True), (Call_Create (Some []), False)]
   \<and> Use (loaded bad_src good_src)
       [GL_CreateShader VERTEX 1, GL_ShaderSource 1 bad_src, GL_CompileShader 1,
         GL_GetShaderiv 1 0, GL_GetShaderInfoLog 1 ''ERROR: 0:1: syntax error''] =
     (False,
      [GL_CreateShader VERTEX 1, GL_ShaderSource 1 bad_src, GL_CompileShader 1,
         GL_GetShaderiv 1 0, GL_GetShaderInfoLog 1 ''ERROR: 0:1: syntax error''])"
proof -
  let ?hS = "[(Call_LoadVertexShaderFromString good_src, True),
       (Call_LoadFragmentShaderFromString good_src, True), (Call_Create (Some []), True)]"
  let ?hN = "[(Call_LoadVertexShaderFromFile ''bad.vert'', True),
       (Call_LoadFragmentShaderFromString good_src, True), (Call_Create (Some []), False)]"
  have rS: "run demo_driver demo_files
     [Call_LoadVertexShaderFromString good_src, Call_LoadFragmentShaderFromString good_src,
      Call_Create (Some [])]
     (ShaderProgram_constructor, []) =
     (?hS, (loaded good_src good_src)
          \<lparr>vertex_shader_' := 1, fragment_shader_' := 5, shader_program_id_' := 9,
           created_' := True\<rparr>,
      [GL_CreateShader VERTEX 1, GL_ShaderSource 1 good_src, GL_CompileShader 1,
         GL_GetShaderiv 1 1,
         GL_CreateShader FRAGMENT 5, GL_ShaderSource 5 good_src, GL_CompileShader 5,
         GL_GetShaderiv 5 1,
         GL_CreateProgram 9, GL_AttachShader 9 1, GL_AttachShader 9 5, GL_LinkProgram 9,
         GL_GetProgramiv 9 1, GL_DeleteShader 1, GL_DeleteShader 5])"
    by (simp add: load_defs Create_def stage_unfolds pointee_def demo_defs)
  have rN: "run demo_driver demo_files
     [Call_LoadVertexShaderFromFile ''bad.vert'', Call_LoadFragmentShaderFromString good_src,
      Call_Create (Some [])]
     (ShaderProgram_constructor, []) =
     (?hN, loaded bad_src good_src,
      [GL_CreateShader VERTEX 1, GL_ShaderSource 1 bad_src, GL_CompileShader 1,
         GL_GetShaderiv 1 0, GL_GetShaderInfoLog 1 ''ERROR: 0:1: syntax error''])"
    by (simp add: load_defs Create_def stage_unfolds pointee_def report_def demo_defs)
  have yes: "Create_succeeded ?hS" and no: "\<not> Create_succeeded ?hN"
    by (simp_all add: Create_succeeded_def)
  from Use_after_Create [OF rS] yes
  have uS: "Use ((loaded good_src good_src)
          \<lparr>vertex_shader_' := 1, fragment_shader_' := 5, shader_program_id_' := 9,
           created_' := True\<rparr>)
       [GL_CreateShader VERTEX 1, GL_ShaderSource 1 good_src, GL_CompileShader 1,
         GL_GetShaderiv 1 1,
         GL_CreateShader FRAGMENT 5, GL_ShaderSource 5 good_src, GL_CompileShader 5,
         GL_GetShaderiv 5 1,
         GL_CreateProgram 9, GL_AttachShader 9 1, GL_AttachShader 9 5, GL_LinkProgram 9,
         GL_GetProgramiv 9 1, GL_DeleteShader 1, GL_DeleteShader 5] =
     (True,
      [GL_CreateShader VERTEX 1, GL_ShaderSource 1 good_src, GL_CompileShader 1,
         GL_GetShaderiv 1 1,
         GL_CreateShader FRAGMENT 5, GL_ShaderSource 5 good_src, GL_CompileShader 5,
         GL_GetShaderiv 5 1,
         GL_CreateProgram 9, GL_AttachShader 9 1, GL_AttachShader 9 5, GL_LinkProgram 9,
         GL_GetProgramiv 9 1, GL_DeleteShader 1, GL_DeleteShader 5] @ [GL_UseProgram 9])"
    by (simp add: demo_defs)
  from Use_after_Create [OF rN] no
  have uN: "Use (loaded bad_src good_src)
       [GL_CreateShader VERTEX 1, GL_ShaderSource 1 bad_src, GL_CompileShader 1,
         GL_GetShaderiv 1 0, GL_GetShaderInfoLog 1 ''ERROR: 0:1: syntax error''] =
     (False,
      [GL_CreateShader VERTEX 1, GL_ShaderSource 1 bad_src, GL_CompileShader 1,
         GL_GetShaderiv 1 0, GL_GetShaderInfoLog 1 ''ERROR: 0:1: syntax error''])"
    by simp
  show ?thesis
    by (intro conjI) (rule rS rN yes no uS uN)+
qed

text \<open>
  C9. After the constructor and any calls of the public member functions, the flag
  \<open>created_\<close> is true exactly when the program id is not 0; so the destructor calls
  \<^verbatim>\<open>glDeleteProgram\<close>, on that id, exactly when the id is not 0, and makes no call otherwise.
\<close>

theorem created_iff_program_id:
  assumes "run drv fs cs (ShaderProgram_constructor, gl0) = (h, s, gl)"
  shows "created_' s = (shader_program_id_' s \<noteq> 0)
     \<and> ShaderProgram_destructor s gl =
         (if shader_program_id_' s \<noteq> 0 then gl @ [GL_DeleteProgram (shader_program_id_' s)] else gl)"
proof -
  from run_consistent [OF assms constructor_consistent]
  have "created_' s = (shader_program_id_' s \<noteq> 0)"
    by (simp add: consistent_def)
  then show ?thesis
    by (simp add: ShaderProgram_destructor_def glDeleteProgram_def)
qed

theorem created_iff_program_id_witness:
  "run demo_driver demo_files
     [Call_LoadVertexShaderFromFile ''missing.vert'', Call_LoadVertexShaderFromString good_src,
      Call_LoadFragmentShaderFromString nolink_src, Call_Create (Some []), Call_Use]
     (ShaderProgram_constructor, []) =
     ([(Call_LoadVertexShaderFromFile ''missing.vert'', False),
       (Call_LoadVertexShaderFromString good_src, True),
       (Call_LoadFragmentShaderFromString nolink_src, True),
       (Call_Create (Some []), False), (Call_Use, False)],
      (loaded good_src nolink_src)\<lparr>vertex_shader_' := 1, fragment_shader_' := 5\<rparr>,
      [GL_CreateShader VERTEX 1, GL_ShaderSource 1 good_src, GL_CompileShader 1,
         GL_GetShaderiv 1 1,
         GL_CreateShader FRAGMENT 5, GL_ShaderSource 5 nolink_src, GL_CompileShader 5,
         GL_GetShaderiv 5 1,
         GL_CreateProgram 9, GL_AttachShader 9 1, GL_AttachShader 9 5, GL_LinkProgram 9,
         GL_GetProgramiv 9 0, GL_GetProgramInfoLog 9 ''ERROR: unresolved symbol'',
         GL_DeleteShader 1, GL_DeleteShader 5])
   \<and> \<not> created_' ((loaded good_src nolink_src)\<lparr>vertex_shader_' := 1, fragment_shader_' := 5\<rparr>)
   \<and> shader_program_id_'
        ((loaded good_src nolink_src)\<lparr>vertex_shader_' := 1, fragment_shader_' := 5\<rparr>) = 0
   \<and> ShaderProgram_destructor
        ((loaded good_src nolink_src)\<lparr>vertex_shader_' := 1, fragment_shader_' := 5\<rparr>)
        [GL_CreateShader VERTEX 1, GL_ShaderSource 1 good_src, GL_CompileShader 1,
         GL_GetShaderiv 1 1,
         GL_CreateShader FRAGMENT 5, GL_ShaderSource 5 nolink_src, GL_CompileShader 5,
         GL_GetShaderiv 5 1,
         GL_CreateProgram 9, GL_AttachShader 9 1, GL_AttachShader 9 5, GL_LinkProgram 9,
         GL_GetProgramiv 9 0, GL_GetProgramInfoLog 9 ''ERROR: unresolved symbol'',
         GL_DeleteShader 1, GL_DeleteShader 5] =
        [GL_CreateShader VERTEX 1, GL_ShaderSource 1 good_src, GL_CompileShader 1,
         GL_GetShaderiv 1 1,
         GL_CreateShader FRAGMENT 5, GL_ShaderSource 5 nolink_src, GL_CompileShader 5,
         GL_GetShaderiv 5 1,
         GL_CreateProgram 9, GL_AttachShader 9 1, GL_AttachShader 9 5, GL_LinkProgram 9,
         GL_GetProgramiv 9 0, GL_GetProgramInfoLog 9 ''ERROR: unresolved symbol'',
         GL_DeleteShader 1, GL_DeleteShader 5]
   \<and> run demo_driver demo_files
        [Call_LoadFragmentShaderFromString good_src, Call_Create None, Call_Use]
        ((loaded good_src nolink_src)\<lparr>vertex_shader_' := 1, fragment_shader_' := 5\<rparr>,
         [GL_CreateShader VERTEX 1, GL_ShaderSource 1 good_src, GL_CompileShader 1,
         GL_GetShaderiv 1 1,
         GL_CreateShader FRAGMENT 5, GL_ShaderSource 5 nolink_src, GL_CompileShader 5,
         GL_GetShaderiv 5 1,
         GL_CreateProgram 9, GL_AttachShader 9 1, GL_AttachShader 9 5, GL_LinkProgram 9,
         GL_GetProgramiv 9 0, GL_GetProgramInfoLog 9 ''ERROR: unresolved symbol'',
         GL_DeleteShader 1, GL_DeleteShader 5]) =
     ([(Call_LoadFragmentShaderFromString good_src, True), (Call_Create None, True),
       (Call_Use, True)],
      (loaded good_src good_src)
        \<lparr>vertex_shader_' := 17, fragment_shader_' := 21, shader_program_id_' := 25,
         created_' := True\<rparr>,
      [GL_CreateShader VERTEX 1, GL_ShaderSource 1 good_src, GL_CompileShader 1,
         GL_GetShaderiv 1 1,
         GL_CreateShader FRAGMENT 5, GL_ShaderSource 5 nolink_src, GL_CompileShader 5,
         GL_GetShaderiv 5 1,
         GL_CreateProgram 9, GL_AttachShader 9 1, GL_AttachShader 9 5, GL_LinkProgram 9,
         GL_GetProgramiv 9 0, GL_GetProgramInfoLog 9 ''ERROR: unresolved symbol'',
         GL_DeleteShader 1, GL_DeleteShader 5] @
        [GL_CreateShader VERTEX 17, GL_ShaderSource 17 good_src, GL_CompileShader 17,
         GL_GetShaderiv 17 1,
         GL_CreateShader FRAGMENT 21, GL_ShaderSource 21 good_src, GL_CompileShader 21,
         GL_GetShaderiv 21 1,
         GL_CreateProgram 25, GL_AttachShader 25 17, GL_AttachShader 25 21, GL_LinkProgram 25,
         GL_GetProgramiv 25 1, GL_DeleteShader 17, GL_DeleteShader 21] @ [GL_UseProgram 25])
   \<and> ShaderProgram_destructor
        ((loaded good_src good_src)
          \<lparr>vertex_shader_' := 17, fragment_shader_' := 21, shader_program_id_' := 25,
           created_' := True\<rparr>)
        ([GL_CreateShader VERTEX 1, GL_ShaderSource 1 good_src, GL_CompileShader 1,
         GL_GetShaderiv 1 1,
         GL_CreateShader FRAGMENT 5, GL_ShaderSource 5 nolink_src, GL_CompileShader 5,
         GL_GetShaderiv 5 1,
         GL_CreateProgram 9, GL_AttachShader 9 1, GL_AttachShader 9 5, GL_LinkProgram 9,
         GL_GetProgramiv 9 0, GL_GetProgramInfoLog 9 ''ERROR: unresolved symbol'',
         GL_DeleteShader 1, GL_DeleteShader 5] @
        [GL_CreateShader VERTEX 17, GL_ShaderSource 17 good_src, GL_CompileShader 17,
         GL_GetShaderiv 17 1,
         GL_CreateShader FRAGMENT 21, GL_ShaderSource 21 good_src, GL_CompileShader 21,
         GL_GetShaderiv 21 1,
         GL_CreateProgram 25, GL_AttachShader 25 17, GL_AttachShader 25 21, GL_LinkProgram 25,
         GL_GetProgramiv 25 1, GL_DeleteShader 17, GL_DeleteShader 21] @ [GL_UseProgram 25]) =
      [GL_CreateShader VERTEX 1, GL_ShaderSource 1 good_src, GL_CompileShader 1,
         GL_GetShaderiv 1 1,
         GL_CreateShader FRAGMENT 5, GL_ShaderSource 5 nolink_src, GL_CompileShader 5,
         GL_GetShaderiv 5 1,
         GL_CreateProgram 9, GL_AttachShader 9 1, GL_AttachShader 9 5, GL_LinkProgram 9,
         GL_GetProgramiv 9 0, GL_GetProgramInfoLog 9 ''ERROR: unresolved symbol'',
         GL_DeleteShader 1, GL_DeleteShader 5] @
        [GL_CreateShader VERTEX 17, GL_ShaderSource 17 good_src, GL_CompileShader 17,
         GL_GetShaderiv 17 1,
         GL_CreateShader FRAGMENT 21, GL_ShaderSource 21 good_src, GL_CompileShader 21,
         GL_GetShaderiv 21 1,
         GL_CreateProgram 25, GL_AttachShader 25 17, GL_AttachShader 25 21, GL_LinkProgram 25,
         GL_GetProgramiv 25 1, GL_DeleteShader 17, GL_DeleteShader 21] @ [GL_UseProgram 25, GL_DeleteProgram 25]"
proof -
  let ?cs1 = "[Call_LoadVertexShaderFromFile ''missing.vert'', Call_LoadVertexShaderFromString good_src,
      Call_LoadFragmentShaderFromString nolink_src, Call_Create (Some []), Call_Use]"
  let ?cs2 = "[Call_LoadFragmentShaderFromString good_src, Call_Create None, Call_Use]"
  let ?h1 = "[(Call_LoadVertexShaderFromFile ''missing.vert'', False),
       (Call_LoadVertexShaderFromString good_src, True),
       (Call_LoadFragmentShaderFromString nolink_src, True),
       (Call_Create (Some []), False), (Call_Use, False)]"
  let ?h2 = "[(Call_LoadFragmentShaderFromString good_src, True), (Call_Create None, True),
       (Call_Use, True)]"
  let ?s1 = "(loaded good_src nolink_src)\<lparr>vertex_shader_' := 1, fragment_shader_' := 5\<rparr>"
  let ?s2 = "(loaded good_src good_src)
        \<lparr>vertex_shader_' := 17, fragment_shader_' := 21, shader_program_id_' := 25,
         created_' := True\<rparr>"
  let ?gl1 = "[GL_CreateShader VERTEX 1, GL_ShaderSource 1 good_src, GL_CompileShader 1,
         GL_GetShaderiv 1 1,
         GL_CreateShader FRAGMENT 5, GL_ShaderSource 5 nolink_src, GL_CompileShader 5,
         GL_GetShaderiv 5 1,
         GL_CreateProgram 9, GL_AttachShader 9 1, GL_AttachShader 9 5, GL_LinkProgram 9,
         GL_GetProgramiv 9 0, GL_GetProgramInfoLog 9 ''ERROR: unresolved symbol'',
         GL_DeleteShader 1, GL_DeleteShader 5]"
  let ?gl2 = "?gl1 @
        [GL_CreateShader VERTEX 17, GL_ShaderSource 17 good_src, GL_CompileShader 17,
         GL_GetShaderiv 17 1,
         GL_CreateShader FRAGMENT 21, GL_ShaderSource 21 good_src, GL_CompileShader 21,
         GL_GetShaderiv 21 1,
         GL_CreateProgram 25, GL_AttachShader 25 17, GL_AttachShader 25 21, GL_LinkProgram 25,
         GL_GetProgramiv 25 1, GL_DeleteShader 17, GL_DeleteShader 21] @ [GL_UseProgram 25]"
  have r1: "run demo_driver demo_files ?cs1 (ShaderProgram_constructor, []) = (?h1, ?s1, ?gl1)"
    by (simp add: load_defs Create_def Use_def stage_unfolds pointee_def report_def demo_defs)
  have r2: "run demo_driver demo_files ?cs2 (?s1, ?gl1) = (?h2, ?s2, ?gl2)"
    by (simp add: load_defs Create_def Use_def glUseProgram_def stage_unfolds pointee_def
          report_def demo_defs)
  have r12: "run demo_driver demo_files (?cs1 @ ?cs2) (ShaderProgram_constructor, []) =
      (?h1 @ ?h2, ?s2, ?gl2)"
    by (simp only: run_append r1 r2 prod.case)
  from created_iff_program_id [OF r1]
  have a: "\<not> created_' ?s1 \<and> shader_program_id_' ?s1 = 0 \<and> ShaderProgram_destructor ?s1 ?gl1 = ?gl1"
    by (simp add: demo_defs)
  from created_iff_program_id [OF r12]
  have b: "ShaderProgram_destructor ?s2 ?gl2 = ?gl1 @ [GL_CreateShader VERTEX 17, GL_ShaderSource 17 good_src, GL_CompileShader 17,
         GL_GetShaderiv 17 1,
         GL_CreateShader FRAGMENT 21, GL_ShaderSource 21 good_src, GL_CompileShader 21,
         GL_GetShaderiv 21 1,
         GL_CreateProgram 25, GL_AttachShader 25 17, GL_AttachShader 25 21, GL_LinkProgram 25,
         GL_GetProgramiv 25 1, GL_DeleteShader 17, GL_DeleteShader 21] @ [GL_UseProgram 25, GL_DeleteProgram 25]"
    by (simp add: demo_defs)
  from r1 r2 a b show ?thesis
    by (intro conjI) (rule r1 r2 b a [THEN conjunct1] a [THEN conjunct2, THEN conjunct1]
          a [THEN conjunct2, THEN conjunct2])+
qed

section \<open>The model's setters\<close>

text \<open>
  C10. \<open>set_position v\<close> stores \<open>v\<close> as the position and leaves the orientation, the
  vertices, the indices and the three buffer ids as they were; \<open>set_orientation v\<close> stores
  \<open>v\<close> as the orientation and leaves every other field as it was.
\<close>

theorem setters_frame:
  "position_' (set_position v m) = v
   \<and> orientation_' (set_position v m) = orientation_' m
   \<and> vertices_' (set_position v m) = vertices_' m
   \<and> indices_' (set_position v m) = indices_' m
   \<and> vertex_buffer_object_id_' (set_position v m) = vertex_buffer_object_id_' m
   \<and> vertex_array_object_id_' (set_position v m) = vertex_array_object_id_' m
   \<and> element_buffer_object_id_' (set_position v m) = element_buffer_object_id_' m
   \<and> orientation_' (set_orientation v m) = v
   \<and> position_' (set_orientation v m) = position_' m
   \<and> vertices_' (set_orientation v m) = vertices_' m
   \<and> indices_' (set_orientation v m) = indices_' m
   \<and> vertex_buffer_object_id_' (set_orientation v m) = vertex_buffer_object_id_' m
   \<and> vertex_array_object_id_' (set_orientation v m) = vertex_array_object_id_' m
   \<and> element_buffer_object_id_' (set_orientation v m) = element_buffer_object_id_' m"
  by (simp add: set_position_def set_orientation_def)


end
